theory Spec2Isabelle
  imports Main "HOL-Library.Finite_Map" "HOL-Library.Sublist" "HOL-Library.Word"
begin

section \<open>Values exchanged with the node (package \<open>types\<close>)\<close>

text \<open>
  Modelled from the spec: the package \<open>types\<close> is not among the sources; the records below
  follow section 3 of the specification and the struct literals of the test files
  (\<open>asserter/account_test.go\<close>, \<open>asserter/network_test.go\<close>). A Go pointer field that the
  specification calls optional is an \<open>option\<close>. A metadata map
  (\<open>*map[string]interface{}\<close>) is an optional finite map from strings to the tagged
  values of section 9; absence (\<open>None\<close>) and the empty map (\<open>Some fmempty\<close>) are distinct.
\<close>

datatype meta_value =
    VString string
  | VNumber int
  | VBool bool
  | VMap "(string, meta_value) fmap"

type_synonym metadata = "(string, meta_value) fmap option"

record SubNetworkIdentifier =
  SubNetwork_Network :: string
  SubNetwork_Metadata :: metadata

record NetworkIdentifier =
  Blockchain :: string
  Network :: string
  SubNetworkIdentifier :: "SubNetworkIdentifier option"

record SubAccountIdentifier =
  SubAccount_Address :: string
  SubAccount_Metadata :: metadata

record AccountIdentifier =
  Address :: string
  SubAccount :: "SubAccountIdentifier option"

record Currency =
  Symbol :: string
  Decimals :: int
  Metadata :: metadata

record Amount =
  Value :: string
  Amount_Currency :: Currency

record Balance =
  Balance_AccountIdentifier :: AccountIdentifier
  Amounts :: "Amount list"

record BlockIdentifier =
  Index :: int
  Hash :: string

record Version =
  RosettaVersion :: string
  NodeVersion :: string
  MiddlewareVersion :: "string option"

record OperationStatus =
  Status :: string
  Successful :: bool

record Options =
  OperationStatuses :: "OperationStatus list"
  OperationTypes :: "string list"

record Error =
  Code :: int
  Message :: string
  Retriable :: bool

record AccountBalanceRequest =
  Request_NetworkIdentifier :: "NetworkIdentifier option"
  Request_AccountIdentifier :: "AccountIdentifier option"

record AccountBalanceResponse =
  Response_BlockIdentifier :: "BlockIdentifier option"
  Response_Balances :: "Balance list"

section \<open>Go error values\<close>

text \<open>
  An \<open>error\<close> of the sources is built either by \<open>errors.New(msg)\<close> or by
  \<open>fmt.Errorf(format, arg)\<close> with one \<open>%+v\<close> argument; the value keeps how it was built.
  A nil \<open>error\<close> is \<open>None\<close> of \<open>go_error option\<close>.
\<close>

datatype fmt_arg =
    ArgCurrency Currency
  | ArgAccountIdentifier AccountIdentifier
  | ArgError Error

datatype go_error =
    errors_New string
  | fmt_Errorf string fmt_arg

text \<open>
  \<open>errors.Unwrap\<close>: neither \<open>errors.New\<close> nor \<open>fmt.Errorf\<close> without a \<open>%w\<close> verb
  yields an error that wraps another one.
\<close>

fun errors_Unwrap :: "go_error \<Rightarrow> go_error option" where
  "errors_Unwrap (errors_New msg) = None"
| "errors_Unwrap (fmt_Errorf format arg) = None"

text \<open>A panic of the Go runtime: the nil pointer that was dereferenced.\<close>

datatype nil_dereference = Nil_account | Nil_balance

datatype 'a outcome = Returns 'a | Panics nil_dereference

section \<open>The Validator (package \<open>asserter\<close>)\<close>

text \<open>
  Modelled from the spec: the failures that section 4.1 names (IdentifierNil, FieldMissing,
  Empty, NoSuccessfulStatus, DuplicateCurrencyInBalance, DuplicateAccountIdentifier and the
  negative block index); the file that builds them (\<open>asserter/network.go\<close>,
  \<open>asserter/account.go\<close>, \<open>asserter/block.go\<close>) is not among the sources. The wording of
  each message is the one the tests of \<open>asserter/network_test.go\<close> and
  \<open>asserter/account_test.go\<close> expect.
\<close>

definition IdentifierNil :: "string \<Rightarrow> go_error" where
  "IdentifierNil what = errors_New (what @ '' is nil'')"

definition FieldMissing :: "string \<Rightarrow> go_error" where
  "FieldMissing path = errors_New (path @ '' is missing'')"

definition Empty :: "string \<Rightarrow> go_error" where
  "Empty what = errors_New (''no '' @ what @ '' found'')"

definition NoSuccessfulStatus :: go_error where
  "NoSuccessfulStatus = errors_New ''no successful Options.OperationStatuses found''"

definition NegativeIndex :: go_error where
  "NegativeIndex = errors_New ''BlockIdentifier.Index is negative''"

definition DuplicateCurrencyInBalance :: "Currency \<Rightarrow> go_error" where
  "DuplicateCurrencyInBalance c =
     fmt_Errorf ''currency %+v used in balance multiple times'' (ArgCurrency c)"

definition DuplicateAccountIdentifier :: "AccountIdentifier \<Rightarrow> go_error" where
  "DuplicateAccountIdentifier a =
     fmt_Errorf ''account identifier %+v used in balance multiple times'' (ArgAccountIdentifier a)"

text \<open>
  Modelled from the spec: the sub-network part of \<open>asserter.NetworkIdentifier\<close>
  (\<open>asserter/network.go\<close> is not among the sources). "recurses into sub-network if present,
  failing FieldMissing(SubNetwork.Network)".
\<close>

definition asserter_SubNetworkIdentifier :: "SubNetworkIdentifier option \<Rightarrow> go_error option" where
  "asserter_SubNetworkIdentifier subNetworkIdentifier =
     (case subNetworkIdentifier of
        None \<Rightarrow> None
      | Some s \<Rightarrow>
          if SubNetwork_Network s = []
          then Some (FieldMissing ''NetworkIdentifier.SubNetworkIdentifier.Network'')
          else None)"

text \<open>
  Modelled from the spec: \<open>asserter.NetworkIdentifier\<close> (\<open>asserter/network.go\<close> is not among
  the sources). "fails IdentifierNil if input is absent; fails FieldMissing(Blockchain) /
  FieldMissing(Network) on empty strings; recurses into sub-network if present".
\<close>

definition asserter_NetworkIdentifier :: "NetworkIdentifier option \<Rightarrow> go_error option" where
  "asserter_NetworkIdentifier network =
     (case network of
        None \<Rightarrow> Some (IdentifierNil ''NetworkIdentifier'')
      | Some n \<Rightarrow>
          if Blockchain n = [] then Some (FieldMissing ''NetworkIdentifier.Blockchain'')
          else if Network n = [] then Some (FieldMissing ''NetworkIdentifier.Network'')
          else asserter_SubNetworkIdentifier (SubNetworkIdentifier n))"

text \<open>
  Modelled from the spec: \<open>asserter.Version\<close> (\<open>asserter/network.go\<close> is not among the
  sources). "fails IdentifierNil if absent; fails FieldMissing(NodeVersion) if empty; if the
  optional middleware-version field is present but its value is the empty string, fails
  FieldMissing(MiddlewareVersion)".
\<close>

definition asserter_Version :: "Version option \<Rightarrow> go_error option" where
  "asserter_Version version =
     (case version of
        None \<Rightarrow> Some (IdentifierNil ''version'')
      | Some v \<Rightarrow>
          if NodeVersion v = [] then Some (FieldMissing ''Version.NodeVersion'')
          else if MiddlewareVersion v = Some [] then Some (FieldMissing ''Version.MiddlewareVersion'')
          else None)"

text \<open>
  Modelled from the spec: the scan behind NoSuccessfulStatus (\<open>asserter/network.go\<close> is not
  among the sources). "at least one OperationStatus flagged successful".
\<close>

fun containsSuccessfulOperationStatus :: "OperationStatus list \<Rightarrow> bool" where
  "containsSuccessfulOperationStatus [] = False"
| "containsSuccessfulOperationStatus (s # statuses) =
     (if Successful s then True else containsSuccessfulOperationStatus statuses)"

text \<open>
  Modelled from the spec: \<open>asserter.NetworkOptions\<close> (\<open>asserter/network.go\<close> is not among
  the sources). "fails IdentifierNil if absent; fails Empty(OperationStatuses),
  NoSuccessfulStatus, or Empty(OperationTypes) per the invariants in section 3, checked in
  that order".
\<close>

definition asserter_NetworkOptions :: "Options option \<Rightarrow> go_error option" where
  "asserter_NetworkOptions options =
     (case options of
        None \<Rightarrow> Some (IdentifierNil ''options'')
      | Some opts \<Rightarrow>
          if OperationStatuses opts = [] then Some (Empty ''Options.OperationStatuses'')
          else if \<not> containsSuccessfulOperationStatus (OperationStatuses opts)
          then Some NoSuccessfulStatus
          else if OperationTypes opts = [] then Some (Empty ''Options.OperationTypes'')
          else None)"

text \<open>
  Modelled from the spec: the deep equality of metadata maps that \<open>containsCurrency\<close> and
  \<open>containsAccountIdentifier\<close> rely on (\<open>asserter/account.go\<close> is not among the sources).
  "two maps are equal iff they have the same key set and each key's value is equal;
  missing-vs-empty-map is not automatically equal".
\<close>

definition maps_equal :: "(string, meta_value) fmap \<Rightarrow> (string, meta_value) fmap \<Rightarrow> bool" where
  "maps_equal m n =
     (fmdom m = fmdom n \<and> fBall (fmdom m) (\<lambda>k. fmlookup m k = fmlookup n k))"

fun metadata_equal :: "metadata \<Rightarrow> metadata \<Rightarrow> bool" where
  "metadata_equal None None = True"
| "metadata_equal (Some m) (Some n) = maps_equal m n"
| "metadata_equal _ _ = False"

text \<open>
  Modelled from the spec: the structural equality of two Currency values
  (\<open>asserter/account.go\<close> is not among the sources). "symbol, decimals, and metadata (as an
  unordered key/value comparison) must all match".
\<close>

definition currency_equal :: "Currency \<Rightarrow> Currency \<Rightarrow> bool" where
  "currency_equal c d =
     (Symbol c = Symbol d \<and> Decimals c = Decimals d \<and> metadata_equal (Metadata c) (Metadata d))"

text \<open>
  Modelled from the spec: the structural equality of two AccountIdentifier values
  (\<open>asserter/account.go\<close> is not among the sources). "structurally-equal AccountIdentifier
  (including sub-account and metadata)".
\<close>

fun sub_account_equal :: "SubAccountIdentifier option \<Rightarrow> SubAccountIdentifier option \<Rightarrow> bool" where
  "sub_account_equal None None = True"
| "sub_account_equal (Some s) (Some t) =
     (SubAccount_Address s = SubAccount_Address t
      \<and> metadata_equal (SubAccount_Metadata s) (SubAccount_Metadata t))"
| "sub_account_equal _ _ = False"

definition account_identifier_equal :: "AccountIdentifier \<Rightarrow> AccountIdentifier \<Rightarrow> bool" where
  "account_identifier_equal a b =
     (Address a = Address b \<and> sub_account_equal (SubAccount a) (SubAccount b))"

text \<open>
  Modelled from the spec: \<open>containsCurrency\<close> and \<open>containsAccountIdentifier\<close>
  (\<open>asserter/account.go\<close> is not among the sources; \<open>asserter/account_test.go\<close> calls them
  with a list and a value): whether the list holds a structurally equal value.
\<close>

fun containsCurrency :: "Currency list \<Rightarrow> Currency \<Rightarrow> bool" where
  "containsCurrency [] currency = False"
| "containsCurrency (other # currencies) currency =
     (if currency_equal other currency then True else containsCurrency currencies currency)"

fun containsAccountIdentifier :: "AccountIdentifier list \<Rightarrow> AccountIdentifier \<Rightarrow> bool" where
  "containsAccountIdentifier [] identifier = False"
| "containsAccountIdentifier (other # identifiers) identifier =
     (if account_identifier_equal other identifier then True
      else containsAccountIdentifier identifiers identifier)"

text \<open>
  Modelled from the spec: \<open>asserter.BlockIdentifier\<close> (\<open>asserter/block.go\<close> is not among the
  sources). "BlockIdentifier checks: non-negative index, non-empty hash", in the order the
  specification lists them; an absent block fails like every other absent entity.
\<close>

definition asserter_BlockIdentifier :: "BlockIdentifier option \<Rightarrow> go_error option" where
  "asserter_BlockIdentifier blockIdentifier =
     (case blockIdentifier of
        None \<Rightarrow> Some (IdentifierNil ''BlockIdentifier'')
      | Some b \<Rightarrow>
          if Index b < 0 then Some NegativeIndex
          else if Hash b = [] then Some (FieldMissing ''BlockIdentifier.Hash'')
          else None)"

text \<open>
  Modelled from the spec: \<open>asserter.AccountIdentifier\<close> (\<open>asserter/account.go\<close> is not among
  the sources). "address non-empty; if sub-account present, its address non-empty".
\<close>

definition asserter_AccountIdentifier :: "AccountIdentifier \<Rightarrow> go_error option" where
  "asserter_AccountIdentifier account =
     (if Address account = [] then Some (FieldMissing ''Account.Address'')
      else case SubAccount account of
             None \<Rightarrow> None
           | Some s \<Rightarrow>
               if SubAccount_Address s = []
               then Some (FieldMissing ''Account.SubAccount.Address'')
               else None)"

text \<open>
  Modelled from the spec: the check of one entry's amounts (\<open>asserter/account.go\<close> is not
  among the sources). "within that entry's amount set, fails DuplicateCurrencyInBalance if two
  amounts share a structurally-equal Currency". The first argument holds the currencies seen
  so far.
\<close>

fun assertBalanceAmounts :: "Currency list \<Rightarrow> Amount list \<Rightarrow> go_error option" where
  "assertBalanceAmounts currencies [] = None"
| "assertBalanceAmounts currencies (amount # amounts) =
     (if containsCurrency currencies (Amount_Currency amount)
      then Some (DuplicateCurrencyInBalance (Amount_Currency amount))
      else assertBalanceAmounts (currencies @ [Amount_Currency amount]) amounts)"

text \<open>
  Modelled from the spec: the pass over the entries (\<open>asserter/account.go\<close> is not among the
  sources). "for each balance entry in order, validates its AccountIdentifier; then, within
  that entry's amount set, fails DuplicateCurrencyInBalance".
\<close>

fun assertBalanceEntries :: "Balance list \<Rightarrow> go_error option" where
  "assertBalanceEntries [] = None"
| "assertBalanceEntries (balance # balances) =
     (case asserter_AccountIdentifier (Balance_AccountIdentifier balance) of
        Some err \<Rightarrow> Some err
      | None \<Rightarrow>
          (case assertBalanceAmounts [] (Amounts balance) of
             Some err \<Rightarrow> Some err
           | None \<Rightarrow> assertBalanceEntries balances))"

text \<open>
  Modelled from the spec: the last check (\<open>asserter/account.go\<close> is not among the sources).
  "finally, across the full balances sequence, fails DuplicateAccountIdentifier if two entries
  share a structurally-equal AccountIdentifier". The first argument holds the accounts seen so
  far.
\<close>

fun assertDistinctAccounts :: "AccountIdentifier list \<Rightarrow> Balance list \<Rightarrow> go_error option" where
  "assertDistinctAccounts accounts [] = None"
| "assertDistinctAccounts accounts (balance # balances) =
     (if containsAccountIdentifier accounts (Balance_AccountIdentifier balance)
      then Some (DuplicateAccountIdentifier (Balance_AccountIdentifier balance))
      else assertDistinctAccounts (accounts @ [Balance_AccountIdentifier balance]) balances)"

text \<open>
  Modelled from the spec: \<open>asserter.AccountBalance\<close> (\<open>asserter/account.go\<close> is not among the
  sources). "Validation order is deterministic: block, each entry's account, each entry's
  currency set, cross-entry duplicate account check".
\<close>

definition asserter_AccountBalance ::
  "BlockIdentifier option \<Rightarrow> Balance list \<Rightarrow> go_error option" where
  "asserter_AccountBalance block balances =
     (case asserter_BlockIdentifier block of
        Some err \<Rightarrow> Some err
      | None \<Rightarrow>
          (case assertBalanceEntries balances of
             Some err \<Rightarrow> Some err
           | None \<Rightarrow> assertDistinctAccounts [] balances))"

section \<open>The network API of the generated client (\<open>client/api_network.go\<close>)\<close>

text \<open>
  What \<open>NetworkStatus\<close> uses of \<open>net/http\<close>: the status code, \<open>Header.Get\<close> (the empty
  string for a header that is not set) and the body.
\<close>

record 'body http_Response =
  StatusCode :: int
  Header :: "string \<rightharpoonup> string"
  Body :: 'body

definition StatusOK :: int where
  "StatusOK = 200"

definition Header_Get :: "(string \<rightharpoonup> string) \<Rightarrow> string \<Rightarrow> string" where
  "Header_Get header key = (case header key of None \<Rightarrow> [] | Some v \<Rightarrow> v)"

text \<open>
  The collaborators of \<open>NetworkStatus\<close> that are not among the sources are parameters: the
  configuration, the header selection helpers, \<open>prepareRequest\<close>, \<open>callAPI\<close>,
  \<open>ioutil.ReadAll\<close> and \<open>decode\<close>, the last one once per type of the value it fills.
  A call that yields \<open>(value, err)\<close> and whose value is read only when \<open>err\<close> is nil is a
  sum; \<open>callAPI\<close> keeps both slots, since the source tests both.
\<close>

record ('post, 'request, 'body, 'response) APIClient =
  cfg_BasePath :: string
  selectHeaderContentType :: "string list \<Rightarrow> string"
  selectHeaderAccept :: "string list \<Rightarrow> string"
  prepareRequest :: "string \<Rightarrow> 'post \<Rightarrow> (string \<rightharpoonup> string) \<Rightarrow> go_error + 'request"
  callAPI :: "'request \<Rightarrow> 'body http_Response option \<times> go_error option"
  ioutil_ReadAll :: "'body \<Rightarrow> go_error + 8 word list"
  decode_Error :: "8 word list \<Rightarrow> string \<Rightarrow> go_error + Error"
  decode_NetworkStatusResponse :: "8 word list \<Rightarrow> string \<Rightarrow> go_error + 'response"

text \<open>
  The header parameters that \<open>NetworkStatus\<close> builds before it prepares the request (the
  variable \<open>localVarHeaderParams\<close> of the source, once both headers are set).
\<close>

definition localVarHeaderParams ::
  "('post, 'request, 'body, 'response) APIClient \<Rightarrow> (string \<rightharpoonup> string)" where
  "localVarHeaderParams a =
     (let localVarHTTPContentType = selectHeaderContentType a [''application/json''];
          withContentType =
            (if localVarHTTPContentType \<noteq> []
             then Map.empty(''Content-Type'' \<mapsto> localVarHTTPContentType) else Map.empty);
          localVarHTTPHeaderAccept = selectHeaderAccept a [''application/json'']
      in if localVarHTTPHeaderAccept \<noteq> []
         then withContentType(''Accept'' \<mapsto> localVarHTTPHeaderAccept) else withContentType)"

definition NetworkStatus ::
  "('post, 'request, 'body, 'response) APIClient \<Rightarrow> 'post
     \<Rightarrow> 'response option \<times> Error option \<times> go_error option" where
  "NetworkStatus a networkStatusRequest =
     (let localVarPath = cfg_BasePath a @ ''/network/status'';
          localVarPostBody = networkStatusRequest
      in case prepareRequest a localVarPath localVarPostBody (localVarHeaderParams a) of
           Inl err \<Rightarrow> (None, None, Some err)
         | Inr r \<Rightarrow>
             (case callAPI a r of
                (localVarHTTPResponse, Some err) \<Rightarrow> (None, None, Some err)
              | (None, None) \<Rightarrow> (None, None, None)
              | (Some localVarHTTPResponse, None) \<Rightarrow>
                  (case ioutil_ReadAll a (Body localVarHTTPResponse) of
                     Inl err \<Rightarrow> (None, None, Some err)
                   | Inr localVarBody \<Rightarrow>
                       if StatusCode localVarHTTPResponse \<noteq> StatusOK
                       then (case decode_Error a localVarBody
                                    (Header_Get (Header localVarHTTPResponse) ''Content-Type'') of
                               Inl err \<Rightarrow> (None, None, Some err)
                             | Inr v \<Rightarrow> (None, Some v, Some (fmt_Errorf ''%+v'' (ArgError v))))
                       else (case decode_NetworkStatusResponse a localVarBody
                                    (Header_Get (Header localVarHTTPResponse) ''Content-Type'') of
                               Inl err \<Rightarrow> (None, None, Some err)
                             | Inr v \<Rightarrow> (Some v, None, None)))))"

section \<open>The account balance calls of the fetcher (\<open>fetcher/account.go\<close>)\<close>

text \<open>
  The surroundings of the three methods are parameters: \<open>ctx.Err()\<close> reads the state of the
  world \<open>'s\<close>; the transport \<open>f.rosettaClient.AccountAPI.AccountBalance\<close> answers a request
  and changes the world; \<open>backoffRetries\<close> and \<open>tryAgain\<close> (not among the sources) build the
  backoff value \<open>'b\<close> and decide, after a failed attempt, whether another one follows,
  updating the backoff value and the world (the wait).
\<close>

record ('s, 'b) Fetcher =
  ctx_Err :: "'s \<Rightarrow> go_error option"
  AccountAPI_AccountBalance ::
    "AccountBalanceRequest \<Rightarrow> 's
       \<Rightarrow> (AccountBalanceResponse option \<times> Error option \<times> go_error option) \<times> 's"
  backoffRetries :: "64 word \<Rightarrow> 64 word \<Rightarrow> 's \<Rightarrow> 'b"
  tryAgain :: "string \<Rightarrow> 'b \<Rightarrow> go_error \<Rightarrow> 's \<Rightarrow> bool \<times> 'b \<times> 's"

text \<open>
  The state threaded through a call: the world and the requests handed to the transport so
  far, oldest first.
\<close>

record 's run =
  world :: 's
  transport_calls :: "AccountBalanceRequest list"

type_synonym balance_result = "(BlockIdentifier option \<times> Balance list \<times> go_error option) outcome"

definition UnsafeAccountBalance ::
  "('s, 'b) Fetcher \<Rightarrow> NetworkIdentifier option \<Rightarrow> AccountIdentifier option \<Rightarrow> 's run
     \<Rightarrow> balance_result \<times> 's run" where
  "UnsafeAccountBalance f network account st =
     (let request = \<lparr>Request_NetworkIdentifier = network, Request_AccountIdentifier = account\<rparr>;
          (response, w) = AccountAPI_AccountBalance f request (world st);
          st' = \<lparr>world = w, transport_calls = transport_calls st @ [request]\<rparr>
      in case response of
           (balance, domain_error, Some err) \<Rightarrow> (Returns (None, [], Some err), st')
         | (None, domain_error, None) \<Rightarrow> (Panics Nil_balance, st')
         | (Some balance, domain_error, None) \<Rightarrow>
             (Returns (Response_BlockIdentifier balance, Response_Balances balance, None), st'))"

definition AccountBalance ::
  "('s, 'b) Fetcher \<Rightarrow> NetworkIdentifier option \<Rightarrow> AccountIdentifier option \<Rightarrow> 's run
     \<Rightarrow> balance_result \<times> 's run" where
  "AccountBalance f network account st =
     (case UnsafeAccountBalance f network account st of
        (Panics p, st') \<Rightarrow> (Panics p, st')
      | (Returns (block, balances, Some err), st') \<Rightarrow> (Returns (None, [], Some err), st')
      | (Returns (block, balances, None), st') \<Rightarrow>
          (case asserter_AccountBalance block balances of
             Some err \<Rightarrow> (Returns (None, [], Some err), st')
           | None \<Rightarrow> (Returns (block, balances, None), st')))"

definition exhausted_retries :: go_error where
  "exhausted_retries = errors_New ''exhausted retries for account''"

text \<open>
  The loop of \<open>AccountBalanceRetry\<close>. Nothing bounds the number of rounds when \<open>tryAgain\<close>
  keeps answering true, so the loop is a partial function: \<open>None\<close> is a call that never
  returns. The argument \<open>account.Address\<close> of \<open>tryAgain\<close> is evaluated after a failed
  attempt and panics on a nil \<open>account\<close>.
\<close>

partial_function (option) AccountBalanceRetry_loop ::
  "('s, 'b) Fetcher \<Rightarrow> NetworkIdentifier option \<Rightarrow> AccountIdentifier option \<Rightarrow> 'b \<Rightarrow> 's run
     \<Rightarrow> (balance_result \<times> 's run) option" where
  "AccountBalanceRetry_loop f network account backoff st =
     (if ctx_Err f (world st) = None
      then (case AccountBalance f network account st of
              (Panics p, st') \<Rightarrow> Some (Panics p, st')
            | (Returns (block, balances, None), st') \<Rightarrow> Some (Returns (block, balances, None), st')
            | (Returns (block, balances, Some err), st') \<Rightarrow>
                (case account of
                   None \<Rightarrow> Some (Panics Nil_account, st')
                 | Some acct \<Rightarrow>
                     (case tryAgain f (''account '' @ Address acct) backoff err (world st') of
                        (again, backoff', w) \<Rightarrow>
                          if \<not> again
                          then Some (Returns (None, [], Some exhausted_retries), st'\<lparr>world := w\<rparr>)
                          else AccountBalanceRetry_loop f network account backoff'
                                 (st'\<lparr>world := w\<rparr>))))
      else Some (Returns (None, [], Some exhausted_retries), st))"

definition AccountBalanceRetry ::
  "('s, 'b) Fetcher \<Rightarrow> NetworkIdentifier option \<Rightarrow> AccountIdentifier option
     \<Rightarrow> 64 word \<Rightarrow> 64 word \<Rightarrow> 's run \<Rightarrow> (balance_result \<times> 's run) option" where
  "AccountBalanceRetry f network account maxElapsedTime maxRetries st =
     AccountBalanceRetry_loop f network account
       (backoffRetries f maxElapsedTime maxRetries (world st)) st"

section \<open>The test tables of the sources\<close>

text \<open>
  The tables of \<open>asserter/network_test.go\<close> and \<open>asserter/account_test.go\<close>, case by case
  in the order of the files: the name of the case, its input and the result the test expects.
  A field that a struct literal leaves out has Go's zero value.
\<close>

definition TestNetworkIdentifier_tests ::
  "(string \<times> NetworkIdentifier option \<times> go_error option) list" where
  "TestNetworkIdentifier_tests =
     [(''valid network'',
       Some \<lparr>Blockchain = ''bitcoin'', Network = ''mainnet'', SubNetworkIdentifier = None\<rparr>,
       None),
      (''nil network'',
       None,
       Some (errors_New ''NetworkIdentifier is nil'')),
      (''invalid blockchain'',
       Some \<lparr>Blockchain = [], Network = ''mainnet'', SubNetworkIdentifier = None\<rparr>,
       Some (errors_New ''NetworkIdentifier is nil'')),
      (''invalid network'',
       Some \<lparr>Blockchain = ''bitcoin'', Network = [], SubNetworkIdentifier = None\<rparr>,
       Some (errors_New ''NetworkIdentifier.Network is missing'')),
      (''valid sub_network'',
       Some \<lparr>Blockchain = ''bitcoin'', Network = ''mainnet'',
             SubNetworkIdentifier =
               Some \<lparr>SubNetwork_Network = ''shard 1'', SubNetwork_Metadata = None\<rparr>\<rparr>,
       None),
      (''invalid sub_network'',
       Some \<lparr>Blockchain = ''bitcoin'', Network = ''mainnet'',
             SubNetworkIdentifier =
               Some \<lparr>SubNetwork_Network = [], SubNetwork_Metadata = None\<rparr>\<rparr>,
       Some (errors_New ''NetworkIdentifier.SubNetworkIdentifier.Network is missing''))]"

definition TestVersion_tests :: "(string \<times> Version option \<times> go_error option) list" where
  "TestVersion_tests =
     [(''valid version'',
       Some \<lparr>RosettaVersion = ''1.2.4'', NodeVersion = ''1.0'', MiddlewareVersion = None\<rparr>,
       None),
      (''valid version with middleware'',
       Some \<lparr>RosettaVersion = ''1.2.4'', NodeVersion = ''1.0'', MiddlewareVersion = Some ''1.2''\<rparr>,
       None),
      (''old RosettaVersion'',
       Some \<lparr>RosettaVersion = ''1.2.2'', NodeVersion = ''1.0'', MiddlewareVersion = None\<rparr>,
       None),
      (''nil version'',
       None,
       Some (errors_New ''version is nil'')),
      (''invalid NodeVersion'',
       Some \<lparr>RosettaVersion = ''1.2.4'', NodeVersion = [], MiddlewareVersion = None\<rparr>,
       Some (errors_New ''Version.NodeVersion is missing'')),
      (''invalid MiddlewareVersion'',
       Some \<lparr>RosettaVersion = ''1.2.4'', NodeVersion = ''1.0'', MiddlewareVersion = Some []\<rparr>,
       Some (errors_New ''Version.MiddlewareVersion is missing''))]"

definition operationStatuses :: "OperationStatus list" where
  "operationStatuses =
     [\<lparr>Status = ''SUCCESS'', Successful = True\<rparr>, \<lparr>Status = ''FAILURE'', Successful = False\<rparr>]"

definition operationTypes :: "string list" where
  "operationTypes = [''PAYMENT'']"

definition TestNetworkOptions_tests :: "(string \<times> Options option \<times> go_error option) list" where
  "TestNetworkOptions_tests =
     [(''valid options'',
       Some \<lparr>OperationStatuses = operationStatuses, OperationTypes = operationTypes\<rparr>,
       None),
      (''nil options'',
       None,
       Some (errors_New ''options is nil'')),
      (''no OperationStatuses'',
       Some \<lparr>OperationStatuses = [], OperationTypes = operationTypes\<rparr>,
       Some (errors_New ''no Options.OperationStatuses found'')),
      (''no successful OperationStatuses'',
       Some \<lparr>OperationStatuses = [operationStatuses ! 1], OperationTypes = operationTypes\<rparr>,
       Some (errors_New ''no successful Options.OperationStatuses found'')),
      (''no OperationTypes'',
       Some \<lparr>OperationStatuses = operationStatuses, OperationTypes = []\<rparr>,
       Some (errors_New ''no Options.OperationTypes found''))]"

definition blah :: "string \<Rightarrow> metadata" where
  "blah v = Some (fmupd ''blah'' (VString v) fmempty)"

definition TestContainsCurrency_tests :: "(string \<times> Currency list \<times> Currency \<times> bool) list" where
  "TestContainsCurrency_tests =
     [(''simple contains'',
       [\<lparr>Symbol = ''BTC'', Decimals = 8, Metadata = None\<rparr>],
       \<lparr>Symbol = ''BTC'', Decimals = 8, Metadata = None\<rparr>,
       True),
      (''complex contains'',
       [\<lparr>Symbol = ''BTC'', Decimals = 8, Metadata = blah ''hello''\<rparr>],
       \<lparr>Symbol = ''BTC'', Decimals = 8, Metadata = blah ''hello''\<rparr>,
       True),
      (''empty'',
       [],
       \<lparr>Symbol = ''BTC'', Decimals = 8, Metadata = None\<rparr>,
       False),
      (''symbol mismatch'',
       [\<lparr>Symbol = ''ERX'', Decimals = 8, Metadata = None\<rparr>],
       \<lparr>Symbol = ''BTC'', Decimals = 6, Metadata = None\<rparr>,
       False),
      (''decimal mismatch'',
       [\<lparr>Symbol = ''BTC'', Decimals = 8, Metadata = None\<rparr>],
       \<lparr>Symbol = ''BTC'', Decimals = 6, Metadata = None\<rparr>,
       False),
      (''metadata mismatch'',
       [\<lparr>Symbol = ''BTC'', Decimals = 8, Metadata = blah ''hello''\<rparr>],
       \<lparr>Symbol = ''BTC'', Decimals = 8, Metadata = blah ''bye''\<rparr>,
       False)]"

definition subacct :: "string \<Rightarrow> string \<Rightarrow> SubAccountIdentifier option" where
  "subacct address v = Some \<lparr>SubAccount_Address = address, SubAccount_Metadata = blah v\<rparr>"

definition TestContainsAccountIdentifier_tests ::
  "(string \<times> AccountIdentifier list \<times> AccountIdentifier \<times> bool) list" where
  "TestContainsAccountIdentifier_tests =
     [(''simple contains'',
       [\<lparr>Address = ''acct1'', SubAccount = None\<rparr>],
       \<lparr>Address = ''acct1'', SubAccount = None\<rparr>,
       True),
      (''complex contains'',
       [\<lparr>Address = ''acct1'', SubAccount = subacct ''subacct1'' ''hello''\<rparr>],
       \<lparr>Address = ''acct1'', SubAccount = subacct ''subacct1'' ''hello''\<rparr>,
       True),
      (''simple mismatch'',
       [\<lparr>Address = ''acct1'', SubAccount = None\<rparr>],
       \<lparr>Address = ''acct2'', SubAccount = None\<rparr>,
       False),
      (''empty'',
       [],
       \<lparr>Address = ''acct2'', SubAccount = None\<rparr>,
       False),
      (''subaccount mismatch'',
       [\<lparr>Address = ''acct1'', SubAccount = subacct ''subacct2'' ''hello''\<rparr>],
       \<lparr>Address = ''acct1'', SubAccount = subacct ''subacct1'' ''hello''\<rparr>,
       False),
      (''metadata mismatch'',
       [\<lparr>Address = ''acct1'', SubAccount = subacct ''subacct1'' ''hello''\<rparr>],
       \<lparr>Address = ''acct1'', SubAccount = subacct ''subacct1'' ''bye''\<rparr>,
       False)]"

definition validBlock :: BlockIdentifier where
  "validBlock = \<lparr>Index = 1000, Hash = ''jsakdl''\<rparr>"

definition invalidBlock :: BlockIdentifier where
  "invalidBlock = \<lparr>Index = 1, Hash = []\<rparr>"

definition validIdentifier :: AccountIdentifier where
  "validIdentifier = \<lparr>Address = ''acct1'', SubAccount = None\<rparr>"

definition invalidIdentifier :: AccountIdentifier where
  "invalidIdentifier = \<lparr>Address = [], SubAccount = None\<rparr>"

definition validAmount :: Amount where
  "validAmount =
     \<lparr>Value = ''100'', Amount_Currency = \<lparr>Symbol = ''BTC'', Decimals = 8, Metadata = None\<rparr>\<rparr>"

definition TestAccoutBalance_tests ::
  "(string \<times> BlockIdentifier option \<times> Balance list \<times> go_error option) list" where
  "TestAccoutBalance_tests =
     [(''simple balance'',
       Some validBlock,
       [\<lparr>Balance_AccountIdentifier = validIdentifier, Amounts = [validAmount]\<rparr>],
       None),
      (''invalid block'',
       Some invalidBlock,
       [\<lparr>Balance_AccountIdentifier = validIdentifier, Amounts = [validAmount]\<rparr>],
       Some (errors_New ''BlockIdentifier.Hash is missing'')),
      (''invalid account identifier'',
       Some validBlock,
       [\<lparr>Balance_AccountIdentifier = invalidIdentifier, Amounts = [validAmount]\<rparr>],
       Some (errors_New ''Account.Address is missing'')),
      (''duplicate currency'',
       Some validBlock,
       [\<lparr>Balance_AccountIdentifier = validIdentifier, Amounts = [validAmount, validAmount]\<rparr>],
       Some (fmt_Errorf ''currency %+v used in balance multiple times''
               (ArgCurrency (Amount_Currency validAmount)))),
      (''duplicate identifier'',
       Some validBlock,
       [\<lparr>Balance_AccountIdentifier = validIdentifier, Amounts = [validAmount]\<rparr>,
        \<lparr>Balance_AccountIdentifier = validIdentifier, Amounts = [validAmount]\<rparr>],
       Some (fmt_Errorf ''account identifier %+v used in balance multiple times''
               (ArgAccountIdentifier validIdentifier)))]"

section \<open>Concrete collaborators\<close>

text \<open>
  A client whose node answers every request with the given status code and a JSON body
  that decodes, as an Error, to code 12 and, as a response, to the text \<open>status\<close>; and a
  client whose connection fails.
\<close>

definition answering_client :: "int \<Rightarrow> (unit, string, 8 word list, string) APIClient" where
  "answering_client status =
     \<lparr>cfg_BasePath = ''http://localhost:8080'',
      selectHeaderContentType = (\<lambda>types. ''application/json''),
      selectHeaderAccept = (\<lambda>types. ''application/json''),
      prepareRequest = (\<lambda>path post headers. Inr path),
      callAPI = (\<lambda>r. (Some \<lparr>StatusCode = status,
                               Header = Map.empty(''Content-Type'' \<mapsto> ''application/json''),
                               Body = []\<rparr>, None)),
      ioutil_ReadAll = (\<lambda>body. Inr body),
      decode_Error =
        (\<lambda>body contentType.
           Inr \<lparr>Code = 12, Message = ''signature invalid'', Retriable = False\<rparr>),
      decode_NetworkStatusResponse = (\<lambda>body contentType. Inr ''status'')\<rparr>"

definition unreachable_client :: "(unit, string, 8 word list, string) APIClient" where
  "unreachable_client =
     (answering_client 200)
       \<lparr>callAPI := (\<lambda>r. (None, Some (errors_New ''connection refused'')))\<rparr>"

text \<open>
  A fetcher over a world without state: the context is cancelled or not, the transport gives
  the same answer to every request, the backoff value is the number of retries left and
  \<open>tryAgain\<close> allows another attempt while one is left.
\<close>

definition constant_fetcher ::
  "bool \<Rightarrow> AccountBalanceResponse option \<times> Error option \<times> go_error option
     \<Rightarrow> (unit, nat) Fetcher" where
  "constant_fetcher cancelled answer =
     \<lparr>ctx_Err = (\<lambda>w. if cancelled then Some (errors_New ''context canceled'') else None),
      AccountAPI_AccountBalance = (\<lambda>request w. (answer, w)),
      backoffRetries = (\<lambda>maxElapsedTime maxRetries w. unat maxRetries),
      tryAgain = (\<lambda>fetchMsg backoff err w. (0 < backoff, backoff - 1, w))\<rparr>"

definition connection_refused ::
  "AccountBalanceResponse option \<times> Error option \<times> go_error option" where
  "connection_refused = (None, None, Some (errors_New ''connection refused''))"

definition request_timed_out ::
  "AccountBalanceResponse option \<times> Error option \<times> go_error option" where
  "request_timed_out = (None, None, Some (errors_New ''request timed out''))"

definition start :: "unit run" where
  "start = \<lparr>world = (), transport_calls = []\<rparr>"

section \<open>The Validator: equality and scans\<close>

lemma maps_equal_iff: "maps_equal m n \<longleftrightarrow> m = n"
  unfolding maps_equal_def by (auto intro!: fmap_ext simp: fmlookup_dom_iff)

lemma metadata_equal_iff: "metadata_equal a b \<longleftrightarrow> a = b"
  by (cases a; cases b) (simp_all add: maps_equal_iff)

lemma currency_equal_iff: "currency_equal c d \<longleftrightarrow> c = d"
  by (cases c; cases d) (simp add: currency_equal_def metadata_equal_iff)

lemma sub_account_equal_iff: "sub_account_equal s t \<longleftrightarrow> s = t"
proof (cases s)
  case None
  then show ?thesis by (cases t) simp_all
next
  case (Some x)
  then show ?thesis
    by (cases t; cases x) (auto simp: metadata_equal_iff)
qed

lemma account_identifier_equal_iff: "account_identifier_equal a b \<longleftrightarrow> a = b"
  by (cases a; cases b) (simp add: account_identifier_equal_def sub_account_equal_iff)

lemma containsCurrency_iff: "containsCurrency currencies currency \<longleftrightarrow> currency \<in> set currencies"
  by (induction currencies) (auto simp: currency_equal_iff)

lemma containsAccountIdentifier_iff:
  "containsAccountIdentifier identifiers identifier \<longleftrightarrow> identifier \<in> set identifiers"
  by (induction identifiers) (auto simp: account_identifier_equal_iff)

lemma containsSuccessfulOperationStatus_iff:
  "containsSuccessfulOperationStatus statuses \<longleftrightarrow> (\<exists>s \<in> set statuses. Successful s)"
  by (induction statuses) auto

lemma assertBalanceAmounts_None_iff:
  "assertBalanceAmounts currencies amounts = None \<longleftrightarrow>
     distinct (map Amount_Currency amounts)
     \<and> set currencies \<inter> set (map Amount_Currency amounts) = {}"
  by (induction amounts arbitrary: currencies) (auto simp: containsCurrency_iff)

lemma assertBalanceAmounts_Some:
  "assertBalanceAmounts currencies amounts = Some err \<Longrightarrow>
     \<exists>c \<in> set (map Amount_Currency amounts). err = DuplicateCurrencyInBalance c"
  by (induction amounts arbitrary: currencies) (auto split: if_splits)

lemma assertBalanceAmounts_Some_not_distinct:
  "assertBalanceAmounts [] amounts = Some err \<Longrightarrow> \<not> distinct (map Amount_Currency amounts)"
  using assertBalanceAmounts_None_iff [of "[]" amounts] by simp

lemma assertDistinctAccounts_None_iff:
  "assertDistinctAccounts accounts balances = None \<longleftrightarrow>
     distinct (map Balance_AccountIdentifier balances)
     \<and> set accounts \<inter> set (map Balance_AccountIdentifier balances) = {}"
  by (induction balances arbitrary: accounts) (auto simp: containsAccountIdentifier_iff)

lemma assertDistinctAccounts_Some:
  "assertDistinctAccounts accounts balances = Some err \<Longrightarrow>
     \<exists>a \<in> set (map Balance_AccountIdentifier balances). err = DuplicateAccountIdentifier a"
  by (induction balances arbitrary: accounts) (auto split: if_splits)

lemma assertBalanceEntries_None_iff:
  "assertBalanceEntries balances = None \<longleftrightarrow>
     (\<forall>b \<in> set balances. asserter_AccountIdentifier (Balance_AccountIdentifier b) = None
        \<and> distinct (map Amount_Currency (Amounts b)))"
  by (induction balances)
    (auto simp: assertBalanceAmounts_None_iff split: option.splits
          dest: assertBalanceAmounts_Some_not_distinct)

lemma assertBalanceEntries_append:
  "assertBalanceEntries pre = None \<Longrightarrow>
     assertBalanceEntries (pre @ rest) = assertBalanceEntries rest"
  by (induction pre) (auto split: option.splits)

section \<open>The Validator against the test tables\<close>

text \<open>
  The checks modelled from the specification give, on every case of \<open>TestVersion\<close>,
  \<open>TestNetworkOptions\<close>, \<open>TestContainsCurrency\<close>, \<open>TestContainsAccountIdentifier\<close> and
  \<open>TestAccoutBalance\<close>, the result the test expects.
\<close>

lemma TestVersion_agrees:
  "list_all (\<lambda>(name, version, err). asserter_Version version = err) TestVersion_tests"
  by (simp add: TestVersion_tests_def asserter_Version_def IdentifierNil_def FieldMissing_def)

lemma TestNetworkOptions_agrees:
  "list_all (\<lambda>(name, options, err). asserter_NetworkOptions options = err) TestNetworkOptions_tests"
  by (simp add: TestNetworkOptions_tests_def asserter_NetworkOptions_def operationStatuses_def
        operationTypes_def IdentifierNil_def Empty_def NoSuccessfulStatus_def)

lemma TestContainsCurrency_agrees:
  "list_all (\<lambda>(name, currencies, currency, contains).
      containsCurrency currencies currency = contains) TestContainsCurrency_tests"
  by (simp add: TestContainsCurrency_tests_def currency_equal_def blah_def maps_equal_def)

lemma TestContainsAccountIdentifier_agrees:
  "list_all (\<lambda>(name, identifiers, identifier, contains).
      containsAccountIdentifier identifiers identifier = contains)
     TestContainsAccountIdentifier_tests"
  by (simp add: TestContainsAccountIdentifier_tests_def account_identifier_equal_def subacct_def
        blah_def maps_equal_def)

lemma TestAccoutBalance_agrees:
  "list_all (\<lambda>(name, block, balances, err). asserter_AccountBalance block balances = err)
     TestAccoutBalance_tests"
  by (simp add: TestAccoutBalance_tests_def asserter_AccountBalance_def
        asserter_BlockIdentifier_def asserter_AccountIdentifier_def validBlock_def
        invalidBlock_def validIdentifier_def invalidIdentifier_def validAmount_def
        FieldMissing_def DuplicateCurrencyInBalance_def DuplicateAccountIdentifier_def
        currency_equal_def account_identifier_equal_def)

text \<open>
  Claim C2 (NetworkIdentifier: IdentifierNil exactly for an absent input, FieldMissing for an
  empty blockchain, network or sub-network name; an empty blockchain gives the Blockchain
  field-missing error, not the nil-identifier error). The check as the specification words it
  disagrees with exactly one case of \<open>TestNetworkIdentifier\<close>: for the present identifier
  with blockchain \<open>""\<close> and network \<open>"mainnet"\<close> the test of the repository expects
  \<open>errors.New("NetworkIdentifier is nil")\<close>, the error of the absent identifier, where the
  claim requires the Blockchain field-missing error.
\<close>

theorem TestNetworkIdentifier_invalid_blockchain:
  "filter (\<lambda>(name, network, err). asserter_NetworkIdentifier network \<noteq> err)
     TestNetworkIdentifier_tests =
     [(''invalid blockchain'',
       Some \<lparr>Blockchain = [], Network = ''mainnet'', SubNetworkIdentifier = None\<rparr>,
       Some (errors_New ''NetworkIdentifier is nil''))]
   \<and> asserter_NetworkIdentifier
        (Some \<lparr>Blockchain = [], Network = ''mainnet'', SubNetworkIdentifier = None\<rparr>)
      = Some (errors_New ''NetworkIdentifier.Blockchain is missing'')
   \<and> asserter_NetworkIdentifier None = Some (errors_New ''NetworkIdentifier is nil'')"
  by (simp add: TestNetworkIdentifier_tests_def asserter_NetworkIdentifier_def
        asserter_SubNetworkIdentifier_def IdentifierNil_def FieldMissing_def)

section \<open>The Validator: version and options\<close>

text \<open>
  Claim C6. For every Version value the check fails iff the value is absent, the node version
  is empty, or the middleware version is present and empty; the last case fails with
  FieldMissing(MiddlewareVersion); with a non-empty node version, a present non-empty
  middleware version passes and an absent one passes.
\<close>

theorem asserter_Version_fails_iff:
  "(asserter_Version version \<noteq> None \<longleftrightarrow>
      (case version of
         None \<Rightarrow> True
       | Some v \<Rightarrow> NodeVersion v = [] \<or> MiddlewareVersion v = Some []))
   \<and> (\<forall>v. version = Some v \<and> NodeVersion v \<noteq> [] \<and> MiddlewareVersion v = Some []
          \<longrightarrow> asserter_Version version = Some (FieldMissing ''Version.MiddlewareVersion''))
   \<and> (\<forall>v m. version = Some v \<and> NodeVersion v \<noteq> [] \<and> MiddlewareVersion v = Some m \<and> m \<noteq> []
          \<longrightarrow> asserter_Version version = None)
   \<and> (\<forall>v. version = Some v \<and> NodeVersion v \<noteq> [] \<and> MiddlewareVersion v = None
          \<longrightarrow> asserter_Version version = None)"
  by (auto simp: asserter_Version_def split: option.splits)

text \<open>The four cases of C6 on versions of \<open>TestVersion\<close>.\<close>

theorem asserter_Version_fails_iff_witness:
  "asserter_Version
     (Some \<lparr>RosettaVersion = ''1.2.4'', NodeVersion = ''1.0'', MiddlewareVersion = Some []\<rparr>)
     = Some (FieldMissing ''Version.MiddlewareVersion'')
   \<and> asserter_Version
     (Some \<lparr>RosettaVersion = ''1.2.4'', NodeVersion = ''1.0'', MiddlewareVersion = Some ''1.2''\<rparr>)
     = None
   \<and> asserter_Version
     (Some \<lparr>RosettaVersion = ''1.2.4'', NodeVersion = ''1.0'', MiddlewareVersion = None\<rparr>)
     = None
   \<and> asserter_Version None \<noteq> None"
  using asserter_Version_fails_iff
          [of "Some \<lparr>RosettaVersion = ''1.2.4'', NodeVersion = ''1.0'', MiddlewareVersion = Some []\<rparr>"]
        asserter_Version_fails_iff
          [of "Some \<lparr>RosettaVersion = ''1.2.4'', NodeVersion = ''1.0'', MiddlewareVersion = Some ''1.2''\<rparr>"]
        asserter_Version_fails_iff
          [of "Some \<lparr>RosettaVersion = ''1.2.4'', NodeVersion = ''1.0'', MiddlewareVersion = None\<rparr>"]
        asserter_Version_fails_iff [of None]
  by simp

text \<open>
  Claim C7. For every Options value the check fails in priority order: an empty
  OperationStatuses list first (whatever the rest), then the absence of a successful
  OperationStatus (whatever the types), then an empty OperationTypes list; otherwise it
  passes, as do the statuses SUCCESS (successful) and FAILURE (not successful) with the type
  PAYMENT.
\<close>

theorem asserter_NetworkOptions_priority:
  "(OperationStatuses opts = []
      \<longrightarrow> asserter_NetworkOptions (Some opts) = Some (Empty ''Options.OperationStatuses''))
   \<and> (OperationStatuses opts \<noteq> [] \<and> (\<forall>s \<in> set (OperationStatuses opts). \<not> Successful s)
      \<longrightarrow> asserter_NetworkOptions (Some opts) = Some NoSuccessfulStatus)
   \<and> (OperationStatuses opts \<noteq> [] \<and> (\<exists>s \<in> set (OperationStatuses opts). Successful s)
        \<and> OperationTypes opts = []
      \<longrightarrow> asserter_NetworkOptions (Some opts) = Some (Empty ''Options.OperationTypes''))
   \<and> (OperationStatuses opts \<noteq> [] \<and> (\<exists>s \<in> set (OperationStatuses opts). Successful s)
        \<and> OperationTypes opts \<noteq> []
      \<longrightarrow> asserter_NetworkOptions (Some opts) = None)
   \<and> asserter_NetworkOptions
        (Some \<lparr>OperationStatuses =
                 [\<lparr>Status = ''SUCCESS'', Successful = True\<rparr>,
                  \<lparr>Status = ''FAILURE'', Successful = False\<rparr>],
               OperationTypes = [''PAYMENT'']\<rparr>) = None"
  by (auto simp: asserter_NetworkOptions_def containsSuccessfulOperationStatus_iff)

text \<open>
  C7 on options that violate several invariants at once: the earlier failure is reported.
\<close>

theorem asserter_NetworkOptions_priority_witness:
  "asserter_NetworkOptions (Some \<lparr>OperationStatuses = [], OperationTypes = []\<rparr>)
     = Some (Empty ''Options.OperationStatuses'')
   \<and> asserter_NetworkOptions
       (Some \<lparr>OperationStatuses = [\<lparr>Status = ''FAILURE'', Successful = False\<rparr>],
              OperationTypes = []\<rparr>)
     = Some NoSuccessfulStatus
   \<and> asserter_NetworkOptions
       (Some \<lparr>OperationStatuses = [\<lparr>Status = ''SUCCESS'', Successful = True\<rparr>],
              OperationTypes = []\<rparr>)
     = Some (Empty ''Options.OperationTypes'')
   \<and> asserter_NetworkOptions
       (Some \<lparr>OperationStatuses = [\<lparr>Status = ''SUCCESS'', Successful = True\<rparr>],
              OperationTypes = [''PAYMENT'']\<rparr>)
     = None"
  using asserter_NetworkOptions_priority
          [of "\<lparr>OperationStatuses = [], OperationTypes = []\<rparr>"]
        asserter_NetworkOptions_priority
          [of "\<lparr>OperationStatuses = [\<lparr>Status = ''FAILURE'', Successful = False\<rparr>],
               OperationTypes = []\<rparr>"]
        asserter_NetworkOptions_priority
          [of "\<lparr>OperationStatuses = [\<lparr>Status = ''SUCCESS'', Successful = True\<rparr>],
               OperationTypes = []\<rparr>"]
        asserter_NetworkOptions_priority
          [of "\<lparr>OperationStatuses = [\<lparr>Status = ''SUCCESS'', Successful = True\<rparr>],
               OperationTypes = [''PAYMENT'']\<rparr>"]
  by simp

section \<open>The Validator: structural equality\<close>

text \<open>
  Claim C5. The equality behind \<open>containsCurrency\<close> and \<open>containsAccountIdentifier\<close> holds
  iff symbol and decimals (address and sub-account address) match and the metadata maps have
  the same key set with equal values per key; it coincides with equality of the values. So
  every Currency equals itself, \<open>containsCurrency\<close> finds a value in a list that holds it,
  two Currencies that differ only in one metadata value are distinct, and two
  AccountIdentifiers that differ only in the sub-account metadata are distinct.
\<close>

theorem contains_structural_equality:
  "(currency_equal c d \<longleftrightarrow>
      Symbol c = Symbol d \<and> Decimals c = Decimals d
      \<and> (case (Metadata c, Metadata d) of
            (None, None) \<Rightarrow> True
          | (Some m, Some n) \<Rightarrow>
              fmdom m = fmdom n \<and> (\<forall>k. k |\<in>| fmdom m \<longrightarrow> fmlookup m k = fmlookup n k)
          | _ \<Rightarrow> False))
   \<and> (account_identifier_equal a b \<longleftrightarrow>
      Address a = Address b
      \<and> (case (SubAccount a, SubAccount b) of
            (None, None) \<Rightarrow> True
          | (Some s, Some t) \<Rightarrow>
              SubAccount_Address s = SubAccount_Address t
              \<and> (case (SubAccount_Metadata s, SubAccount_Metadata t) of
                    (None, None) \<Rightarrow> True
                  | (Some m, Some n) \<Rightarrow>
                      fmdom m = fmdom n
                      \<and> (\<forall>k. k |\<in>| fmdom m \<longrightarrow> fmlookup m k = fmlookup n k)
                  | _ \<Rightarrow> False)
          | _ \<Rightarrow> False))
   \<and> (currency_equal c d \<longleftrightarrow> c = d)
   \<and> (account_identifier_equal a b \<longleftrightarrow> a = b)
   \<and> currency_equal c c
   \<and> (c \<in> set currencies \<longrightarrow> containsCurrency currencies c)
   \<and> (a \<in> set identifiers \<longrightarrow> containsAccountIdentifier identifiers a)
   \<and> (Metadata c = Some m \<and> fmlookup m k = Some v \<and> v \<noteq> v'
        \<longrightarrow> \<not> currency_equal c (c\<lparr>Metadata := Some (fmupd k v' m)\<rparr>)
            \<and> \<not> containsCurrency [c] (c\<lparr>Metadata := Some (fmupd k v' m)\<rparr>))
   \<and> (SubAccount a = Some s \<and> SubAccount_Metadata s \<noteq> md
        \<longrightarrow> \<not> account_identifier_equal a (a\<lparr>SubAccount := Some (s\<lparr>SubAccount_Metadata := md\<rparr>)\<rparr>)
            \<and> \<not> containsAccountIdentifier [a]
                  (a\<lparr>SubAccount := Some (s\<lparr>SubAccount_Metadata := md\<rparr>)\<rparr>))"
proof -
  have maps: "maps_equal m n \<longleftrightarrow>
      fmdom m = fmdom n \<and> (\<forall>k. k |\<in>| fmdom m \<longrightarrow> fmlookup m k = fmlookup n k)" for m n
    by (auto simp: maps_equal_def)
  have meta: "metadata_equal x y \<longleftrightarrow>
      (case (x, y) of
         (None, None) \<Rightarrow> True
       | (Some m, Some n) \<Rightarrow>
           fmdom m = fmdom n \<and> (\<forall>k. k |\<in>| fmdom m \<longrightarrow> fmlookup m k = fmlookup n k)
       | _ \<Rightarrow> False)" for x y
    by (cases x; cases y) (simp_all add: maps)
  have p1: "currency_equal c d \<longleftrightarrow>
      Symbol c = Symbol d \<and> Decimals c = Decimals d
      \<and> (case (Metadata c, Metadata d) of
            (None, None) \<Rightarrow> True
          | (Some m, Some n) \<Rightarrow>
              fmdom m = fmdom n \<and> (\<forall>k. k |\<in>| fmdom m \<longrightarrow> fmlookup m k = fmlookup n k)
          | _ \<Rightarrow> False)"
    unfolding currency_equal_def meta ..
  have sub: "sub_account_equal x y \<longleftrightarrow>
      (case (x, y) of
         (None, None) \<Rightarrow> True
       | (Some s, Some t) \<Rightarrow>
           SubAccount_Address s = SubAccount_Address t
           \<and> (case (SubAccount_Metadata s, SubAccount_Metadata t) of
                 (None, None) \<Rightarrow> True
               | (Some m, Some n) \<Rightarrow>
                   fmdom m = fmdom n
                   \<and> (\<forall>k. k |\<in>| fmdom m \<longrightarrow> fmlookup m k = fmlookup n k)
               | _ \<Rightarrow> False)
       | _ \<Rightarrow> False)" for x y
    by (cases x; cases y) (simp_all add: meta)
  have p2: "account_identifier_equal a b \<longleftrightarrow>
      Address a = Address b
      \<and> (case (SubAccount a, SubAccount b) of
            (None, None) \<Rightarrow> True
          | (Some s, Some t) \<Rightarrow>
              SubAccount_Address s = SubAccount_Address t
              \<and> (case (SubAccount_Metadata s, SubAccount_Metadata t) of
                    (None, None) \<Rightarrow> True
                  | (Some m, Some n) \<Rightarrow>
                      fmdom m = fmdom n
                      \<and> (\<forall>k. k |\<in>| fmdom m \<longrightarrow> fmlookup m k = fmlookup n k)
                  | _ \<Rightarrow> False)
          | _ \<Rightarrow> False)"
    unfolding account_identifier_equal_def sub ..
  have p5: "currency_equal c c"
    by (simp add: currency_equal_iff)
  have p8: "\<not> currency_equal c (c\<lparr>Metadata := Some (fmupd k v' m)\<rparr>)
            \<and> \<not> containsCurrency [c] (c\<lparr>Metadata := Some (fmupd k v' m)\<rparr>)"
    if "Metadata c = Some m" "fmlookup m k = Some v" "v \<noteq> v'"
  proof -
    have "m \<noteq> fmupd k v' m"
    proof
      assume "m = fmupd k v' m"
      then have "fmlookup m k = fmlookup (fmupd k v' m) k" by simp
      with that show False by simp
    qed
    with that(1) have "c \<noteq> c\<lparr>Metadata := Some (fmupd k v' m)\<rparr>"
      by (cases c) auto
    then show ?thesis by (simp add: currency_equal_iff)
  qed
  have p9: "\<not> account_identifier_equal a (a\<lparr>SubAccount := Some (s\<lparr>SubAccount_Metadata := md\<rparr>)\<rparr>)
            \<and> \<not> containsAccountIdentifier [a]
                  (a\<lparr>SubAccount := Some (s\<lparr>SubAccount_Metadata := md\<rparr>)\<rparr>)"
    if "SubAccount a = Some s" "SubAccount_Metadata s \<noteq> md"
  proof -
    from that have "a \<noteq> a\<lparr>SubAccount := Some (s\<lparr>SubAccount_Metadata := md\<rparr>)\<rparr>"
      by (cases a; cases s) auto
    then show ?thesis by (simp add: account_identifier_equal_iff)
  qed
  show ?thesis
    using p1 p2 p5 p8 p9
    by (simp only: currency_equal_iff account_identifier_equal_iff containsCurrency_iff
          containsAccountIdentifier_iff) blast
qed

text \<open>
  C5 on the values of \<open>TestContainsCurrency\<close> and \<open>TestContainsAccountIdentifier\<close>: the
  metadata \<open>blah: hello\<close> against itself and against \<open>blah: bye\<close>.
\<close>

theorem contains_structural_equality_witness:
  "containsCurrency [\<lparr>Symbol = ''BTC'', Decimals = 8, Metadata = blah ''hello''\<rparr>]
     \<lparr>Symbol = ''BTC'', Decimals = 8, Metadata = blah ''hello''\<rparr>
   \<and> \<not> containsCurrency [\<lparr>Symbol = ''BTC'', Decimals = 8, Metadata = blah ''hello''\<rparr>]
     \<lparr>Symbol = ''BTC'', Decimals = 8, Metadata = blah ''bye''\<rparr>
   \<and> \<not> containsAccountIdentifier
       [\<lparr>Address = ''acct1'', SubAccount = subacct ''subacct1'' ''hello''\<rparr>]
       \<lparr>Address = ''acct1'', SubAccount = subacct ''subacct1'' ''bye''\<rparr>"
  using contains_structural_equality
          [of "\<lparr>Symbol = ''BTC'', Decimals = 8, Metadata = blah ''hello''\<rparr>"
              "\<lparr>Symbol = ''BTC'', Decimals = 8, Metadata = blah ''hello''\<rparr>"
              "\<lparr>Address = ''acct1'', SubAccount = subacct ''subacct1'' ''hello''\<rparr>"
              "\<lparr>Address = ''acct1'', SubAccount = subacct ''subacct1'' ''hello''\<rparr>"
              "[\<lparr>Symbol = ''BTC'', Decimals = 8, Metadata = blah ''hello''\<rparr>]"
              "[\<lparr>Address = ''acct1'', SubAccount = subacct ''subacct1'' ''hello''\<rparr>]"
              "fmupd ''blah'' (VString ''hello'') fmempty"
              "''blah''" "VString ''hello''" "VString ''bye''"
              "\<lparr>SubAccount_Address = ''subacct1'', SubAccount_Metadata = blah ''hello''\<rparr>"
              "blah ''bye''"]
  by (simp add: blah_def subacct_def currency_equal_def account_identifier_equal_def
        maps_equal_def)

section \<open>The Validator: account balances\<close>

lemma asserter_AccountBalance_block_first:
  "asserter_BlockIdentifier block = Some err \<Longrightarrow> asserter_AccountBalance block balances = Some err"
  by (simp add: asserter_AccountBalance_def)

lemma asserter_AccountBalance_entry_account:
  assumes "asserter_BlockIdentifier block = None"
    and "\<forall>y \<in> set pre. asserter_AccountIdentifier (Balance_AccountIdentifier y) = None
           \<and> distinct (map Amount_Currency (Amounts y))"
    and "asserter_AccountIdentifier (Balance_AccountIdentifier x) = Some err"
  shows "asserter_AccountBalance block (pre @ x # post) = Some err"
proof -
  from assms(2) have "assertBalanceEntries pre = None"
    by (simp add: assertBalanceEntries_None_iff)
  then have "assertBalanceEntries (pre @ x # post) = assertBalanceEntries (x # post)"
    by (rule assertBalanceEntries_append)
  with assms(1,3) show ?thesis
    by (simp add: asserter_AccountBalance_def)
qed

lemma asserter_AccountBalance_entry_currency:
  assumes "asserter_BlockIdentifier block = None"
    and "\<forall>y \<in> set pre. asserter_AccountIdentifier (Balance_AccountIdentifier y) = None
           \<and> distinct (map Amount_Currency (Amounts y))"
    and "asserter_AccountIdentifier (Balance_AccountIdentifier x) = None"
    and "\<not> distinct (map Amount_Currency (Amounts x))"
  shows "\<exists>c \<in> set (map Amount_Currency (Amounts x)).
           asserter_AccountBalance block (pre @ x # post) = Some (DuplicateCurrencyInBalance c)"
proof -
  from assms(2) have "assertBalanceEntries pre = None"
    by (simp add: assertBalanceEntries_None_iff)
  then have eq: "assertBalanceEntries (pre @ x # post) = assertBalanceEntries (x # post)"
    by (rule assertBalanceEntries_append)
  from assms(4) have "assertBalanceAmounts [] (Amounts x) \<noteq> None"
    by (simp add: assertBalanceAmounts_None_iff)
  then obtain err where err: "assertBalanceAmounts [] (Amounts x) = Some err"
    by blast
  then obtain c where "c \<in> set (map Amount_Currency (Amounts x))"
    and "err = DuplicateCurrencyInBalance c"
    using assertBalanceAmounts_Some by blast
  moreover from assms(1,3) eq err
  have "asserter_AccountBalance block (pre @ x # post) = Some err"
    by (simp add: asserter_AccountBalance_def)
  ultimately show ?thesis by blast
qed

lemma asserter_AccountBalance_duplicate_account:
  assumes "asserter_BlockIdentifier block = None"
    and "\<forall>y \<in> set balances. asserter_AccountIdentifier (Balance_AccountIdentifier y) = None
           \<and> distinct (map Amount_Currency (Amounts y))"
    and "\<not> distinct (map Balance_AccountIdentifier balances)"
  shows "\<exists>a \<in> set (map Balance_AccountIdentifier balances).
           asserter_AccountBalance block balances = Some (DuplicateAccountIdentifier a)"
proof -
  from assms(2) have entries: "assertBalanceEntries balances = None"
    by (simp add: assertBalanceEntries_None_iff)
  from assms(3) have "assertDistinctAccounts [] balances \<noteq> None"
    by (simp add: assertDistinctAccounts_None_iff)
  then obtain err where err: "assertDistinctAccounts [] balances = Some err"
    by blast
  then obtain a where "a \<in> set (map Balance_AccountIdentifier balances)"
    and "err = DuplicateAccountIdentifier a"
    using assertDistinctAccounts_Some by blast
  moreover from assms(1) entries err
  have "asserter_AccountBalance block balances = Some err"
    by (simp add: asserter_AccountBalance_def)
  ultimately show ?thesis by blast
qed

lemma asserter_AccountBalance_passes:
  assumes "asserter_BlockIdentifier block = None"
    and "\<forall>y \<in> set balances. asserter_AccountIdentifier (Balance_AccountIdentifier y) = None
           \<and> distinct (map Amount_Currency (Amounts y))"
    and "distinct (map Balance_AccountIdentifier balances)"
  shows "asserter_AccountBalance block balances = None"
proof -
  from assms(2) have "assertBalanceEntries balances = None"
    by (simp add: assertBalanceEntries_None_iff)
  moreover from assms(3) have "assertDistinctAccounts [] balances = None"
    by (simp add: assertDistinctAccounts_None_iff)
  ultimately show ?thesis
    using assms(1) by (simp add: asserter_AccountBalance_def)
qed

text \<open>
  Claim C4. \<open>asserter.AccountBalance\<close> validates in a fixed order. The block comes first: a
  failure of the block is the result whatever the balances are, and a block with an empty
  hash (and a non-negative index) fails FieldMissing(Hash). Then the entries in input order:
  when the entries before \<open>x\<close> pass, an invalid AccountIdentifier of \<open>x\<close> is the result, and
  with a valid one, two amounts of \<open>x\<close> with the same Currency fail
  DuplicateCurrencyInBalance. Then, when every entry passes, two entries with the same
  AccountIdentifier fail DuplicateAccountIdentifier. Otherwise the check passes; a valid
  block with one balance of one amount passes.
\<close>

theorem asserter_AccountBalance_order:
  "(asserter_BlockIdentifier block = Some err
      \<longrightarrow> asserter_AccountBalance block balances = Some err)
   \<and> (block = Some b \<and> 0 \<le> Index b \<and> Hash b = []
      \<longrightarrow> asserter_AccountBalance block balances = Some (FieldMissing ''BlockIdentifier.Hash''))
   \<and> (asserter_BlockIdentifier block = None
        \<and> (\<forall>y \<in> set pre. asserter_AccountIdentifier (Balance_AccountIdentifier y) = None
              \<and> distinct (map Amount_Currency (Amounts y)))
        \<and> asserter_AccountIdentifier (Balance_AccountIdentifier x) = Some err
      \<longrightarrow> asserter_AccountBalance block (pre @ x # post) = Some err)
   \<and> (asserter_BlockIdentifier block = None
        \<and> (\<forall>y \<in> set pre. asserter_AccountIdentifier (Balance_AccountIdentifier y) = None
              \<and> distinct (map Amount_Currency (Amounts y)))
        \<and> asserter_AccountIdentifier (Balance_AccountIdentifier x) = None
        \<and> \<not> distinct (map Amount_Currency (Amounts x))
      \<longrightarrow> (\<exists>c \<in> set (map Amount_Currency (Amounts x)).
             asserter_AccountBalance block (pre @ x # post)
               = Some (DuplicateCurrencyInBalance c)))
   \<and> (asserter_BlockIdentifier block = None
        \<and> (\<forall>y \<in> set balances. asserter_AccountIdentifier (Balance_AccountIdentifier y) = None
              \<and> distinct (map Amount_Currency (Amounts y)))
        \<and> \<not> distinct (map Balance_AccountIdentifier balances)
      \<longrightarrow> (\<exists>a \<in> set (map Balance_AccountIdentifier balances).
             asserter_AccountBalance block balances = Some (DuplicateAccountIdentifier a)))
   \<and> (asserter_BlockIdentifier block = None
        \<and> (\<forall>y \<in> set balances. asserter_AccountIdentifier (Balance_AccountIdentifier y) = None
              \<and> distinct (map Amount_Currency (Amounts y)))
        \<and> distinct (map Balance_AccountIdentifier balances)
      \<longrightarrow> asserter_AccountBalance block balances = None)
   \<and> (asserter_BlockIdentifier block = None
        \<and> asserter_AccountIdentifier account = None
      \<longrightarrow> asserter_AccountBalance block
            [\<lparr>Balance_AccountIdentifier = account, Amounts = [amount]\<rparr>] = None)"
proof (intro conjI impI)
  assume "asserter_BlockIdentifier block = Some err"
  then show "asserter_AccountBalance block balances = Some err"
    by (rule asserter_AccountBalance_block_first)
next
  assume "block = Some b \<and> 0 \<le> Index b \<and> Hash b = []"
  then have "asserter_BlockIdentifier block = Some (FieldMissing ''BlockIdentifier.Hash'')"
    by (simp add: asserter_BlockIdentifier_def)
  then show "asserter_AccountBalance block balances = Some (FieldMissing ''BlockIdentifier.Hash'')"
    by (rule asserter_AccountBalance_block_first)
next
  assume "asserter_BlockIdentifier block = None
        \<and> (\<forall>y \<in> set pre. asserter_AccountIdentifier (Balance_AccountIdentifier y) = None
              \<and> distinct (map Amount_Currency (Amounts y)))
        \<and> asserter_AccountIdentifier (Balance_AccountIdentifier x) = Some err"
  then show "asserter_AccountBalance block (pre @ x # post) = Some err"
    using asserter_AccountBalance_entry_account by blast
next
  assume "asserter_BlockIdentifier block = None
        \<and> (\<forall>y \<in> set pre. asserter_AccountIdentifier (Balance_AccountIdentifier y) = None
              \<and> distinct (map Amount_Currency (Amounts y)))
        \<and> asserter_AccountIdentifier (Balance_AccountIdentifier x) = None
        \<and> \<not> distinct (map Amount_Currency (Amounts x))"
  then show "\<exists>c \<in> set (map Amount_Currency (Amounts x)).
             asserter_AccountBalance block (pre @ x # post)
               = Some (DuplicateCurrencyInBalance c)"
    using asserter_AccountBalance_entry_currency by blast
next
  assume "asserter_BlockIdentifier block = None
        \<and> (\<forall>y \<in> set balances. asserter_AccountIdentifier (Balance_AccountIdentifier y) = None
              \<and> distinct (map Amount_Currency (Amounts y)))
        \<and> \<not> distinct (map Balance_AccountIdentifier balances)"
  then show "\<exists>a \<in> set (map Balance_AccountIdentifier balances).
             asserter_AccountBalance block balances = Some (DuplicateAccountIdentifier a)"
    using asserter_AccountBalance_duplicate_account by blast
next
  assume "asserter_BlockIdentifier block = None
        \<and> (\<forall>y \<in> set balances. asserter_AccountIdentifier (Balance_AccountIdentifier y) = None
              \<and> distinct (map Amount_Currency (Amounts y)))
        \<and> distinct (map Balance_AccountIdentifier balances)"
  then show "asserter_AccountBalance block balances = None"
    using asserter_AccountBalance_passes by blast
next
  assume "asserter_BlockIdentifier block = None \<and> asserter_AccountIdentifier account = None"
  then show "asserter_AccountBalance block
            [\<lparr>Balance_AccountIdentifier = account, Amounts = [amount]\<rparr>] = None"
    using asserter_AccountBalance_passes
            [of block "[\<lparr>Balance_AccountIdentifier = account, Amounts = [amount]\<rparr>]"]
    by simp
qed

text \<open>C4 on the blocks, identifiers and amount of \<open>TestAccoutBalance\<close>.\<close>

theorem asserter_AccountBalance_order_witness:
  "asserter_AccountBalance (Some invalidBlock)
      [\<lparr>Balance_AccountIdentifier = validIdentifier, Amounts = [validAmount]\<rparr>]
     = Some (FieldMissing ''BlockIdentifier.Hash'')
   \<and> asserter_AccountBalance (Some validBlock)
      [\<lparr>Balance_AccountIdentifier = invalidIdentifier, Amounts = [validAmount, validAmount]\<rparr>,
       \<lparr>Balance_AccountIdentifier = invalidIdentifier, Amounts = [validAmount]\<rparr>]
     = Some (FieldMissing ''Account.Address'')
   \<and> asserter_AccountBalance (Some validBlock)
      [\<lparr>Balance_AccountIdentifier = validIdentifier, Amounts = [validAmount, validAmount]\<rparr>,
       \<lparr>Balance_AccountIdentifier = validIdentifier, Amounts = [validAmount]\<rparr>]
     = Some (DuplicateCurrencyInBalance (Amount_Currency validAmount))
   \<and> asserter_AccountBalance (Some validBlock)
      [\<lparr>Balance_AccountIdentifier = validIdentifier, Amounts = [validAmount]\<rparr>,
       \<lparr>Balance_AccountIdentifier = validIdentifier, Amounts = [validAmount]\<rparr>]
     = Some (DuplicateAccountIdentifier validIdentifier)
   \<and> asserter_AccountBalance (Some validBlock)
      [\<lparr>Balance_AccountIdentifier = validIdentifier, Amounts = [validAmount]\<rparr>]
     = None"
proof -
  have block: "asserter_BlockIdentifier (Some validBlock) = None"
    by (simp add: asserter_BlockIdentifier_def validBlock_def)
  have bad_block: "asserter_BlockIdentifier (Some invalidBlock)
      = Some (FieldMissing ''BlockIdentifier.Hash'')"
    by (simp add: asserter_BlockIdentifier_def invalidBlock_def)
  have account: "asserter_AccountIdentifier validIdentifier = None"
    by (simp add: asserter_AccountIdentifier_def validIdentifier_def)
  have bad_account: "asserter_AccountIdentifier invalidIdentifier
      = Some (FieldMissing ''Account.Address'')"
    by (simp add: asserter_AccountIdentifier_def invalidIdentifier_def)
  note order = asserter_AccountBalance_order
  from order [where block = "Some invalidBlock"
               and err = "FieldMissing ''BlockIdentifier.Hash''"
               and balances = "[\<lparr>Balance_AccountIdentifier = validIdentifier,
                                  Amounts = [validAmount]\<rparr>]"]
       order [where block = "Some validBlock" and pre = "[]"
               and err = "FieldMissing ''Account.Address''"
               and x = "\<lparr>Balance_AccountIdentifier = invalidIdentifier,
                          Amounts = [validAmount, validAmount]\<rparr>"
               and post = "[\<lparr>Balance_AccountIdentifier = invalidIdentifier,
                              Amounts = [validAmount]\<rparr>]"]
       order [where block = "Some validBlock" and pre = "[]"
               and x = "\<lparr>Balance_AccountIdentifier = validIdentifier,
                          Amounts = [validAmount, validAmount]\<rparr>"
               and post = "[\<lparr>Balance_AccountIdentifier = validIdentifier,
                              Amounts = [validAmount]\<rparr>]"]
       order [where block = "Some validBlock"
               and balances = "[\<lparr>Balance_AccountIdentifier = validIdentifier,
                                  Amounts = [validAmount]\<rparr>,
                                \<lparr>Balance_AccountIdentifier = validIdentifier,
                                  Amounts = [validAmount]\<rparr>]"]
       order [where block = "Some validBlock" and account = validIdentifier
               and amount = validAmount]
       block bad_block account bad_account
  show ?thesis by simp
qed

section \<open>The network status call of the client\<close>

text \<open>
  Claim C8. For every HTTP response that \<open>NetworkStatus\<close> receives with a status code other
  than 200 (so for every non-success code), the body is decoded as a domain Error, and that
  Error is returned to the caller (the decoding failure, when the body does not decode); only
  on status 200 is the body decoded as a NetworkStatusResponse.
\<close>

theorem NetworkStatus_decodes_by_status_code:
  assumes "prepareRequest a (cfg_BasePath a @ ''/network/status'') networkStatusRequest
             (localVarHeaderParams a) = Inr r"
    and "callAPI a r = (Some response, None)"
    and "ioutil_ReadAll a (Body response) = Inr body"
  shows "(StatusCode response \<noteq> StatusOK \<longrightarrow>
            NetworkStatus a networkStatusRequest =
              (case decode_Error a body (Header_Get (Header response) ''Content-Type'') of
                 Inl err \<Rightarrow> (None, None, Some err)
               | Inr v \<Rightarrow> (None, Some v, Some (fmt_Errorf ''%+v'' (ArgError v)))))
         \<and> (StatusCode response = StatusOK \<longrightarrow>
            NetworkStatus a networkStatusRequest =
              (case decode_NetworkStatusResponse a body
                      (Header_Get (Header response) ''Content-Type'') of
                 Inl err \<Rightarrow> (None, None, Some err)
               | Inr v \<Rightarrow> (Some v, None, None)))
         \<and> (fst (NetworkStatus a networkStatusRequest) \<noteq> None
              \<longrightarrow> StatusCode response = StatusOK)
         \<and> (fst (snd (NetworkStatus a networkStatusRequest)) \<noteq> None
              \<longrightarrow> StatusCode response \<noteq> StatusOK)"
  using assms
  by (auto simp: NetworkStatus_def split: sum.splits)

text \<open>C8 on a node that answers with status 500 and on one that answers with status 200.\<close>

theorem NetworkStatus_decodes_by_status_code_witness:
  "NetworkStatus (answering_client 500) ()
     = (None, Some \<lparr>Code = 12, Message = ''signature invalid'', Retriable = False\<rparr>,
        Some (fmt_Errorf ''%+v''
                (ArgError \<lparr>Code = 12, Message = ''signature invalid'', Retriable = False\<rparr>)))
   \<and> NetworkStatus (answering_client 200) () = (Some ''status'', None, None)"
proof -
  have p: "prepareRequest (answering_client s)
             (cfg_BasePath (answering_client s) @ ''/network/status'') ()
             (localVarHeaderParams (answering_client s))
           = Inr ''http://localhost:8080/network/status''" for s
    by (simp add: answering_client_def)
  have c: "callAPI (answering_client s) ''http://localhost:8080/network/status''
           = (Some \<lparr>StatusCode = s,
                    Header = Map.empty(''Content-Type'' \<mapsto> ''application/json''),
                    Body = []\<rparr>, None)" for s
    by (simp add: answering_client_def)
  have b: "ioutil_ReadAll (answering_client s)
             (Body \<lparr>StatusCode = s,
                    Header = Map.empty(''Content-Type'' \<mapsto> ''application/json''),
                    Body = []\<rparr>) = Inr []" for s
    by (simp add: answering_client_def)
  from NetworkStatus_decodes_by_status_code [OF p c b, of 500]
       NetworkStatus_decodes_by_status_code [OF p c b, of 200]
  show ?thesis
    by (simp add: StatusOK_def answering_client_def)
qed

text \<open>
  Claim C9. The three slots of the result of \<open>NetworkStatus\<close> are not mutually exclusive:
  when the status code is not 200 and the body decodes as a domain Error, the call returns
  that Error together with a non-nil error, the \<open>%+v\<close> rendering of the Error. A transport
  failure fills the same error slot, so the error slot alone does not tell the two apart.
\<close>

theorem NetworkStatus_domain_error_and_error:
  assumes "prepareRequest a (cfg_BasePath a @ ''/network/status'') networkStatusRequest
             (localVarHeaderParams a) = Inr r"
    and "callAPI a r = (Some response, None)"
    and "ioutil_ReadAll a (Body response) = Inr body"
    and "StatusCode response \<noteq> StatusOK"
    and "decode_Error a body (Header_Get (Header response) ''Content-Type'') = Inr v"
    and "prepareRequest a' (cfg_BasePath a' @ ''/network/status'') networkStatusRequest
             (localVarHeaderParams a') = Inr r'"
    and "callAPI a' r' = (response', Some err)"
  shows "NetworkStatus a networkStatusRequest
           = (None, Some v, Some (fmt_Errorf ''%+v'' (ArgError v)))
         \<and> fst (snd (NetworkStatus a networkStatusRequest)) \<noteq> None
         \<and> snd (snd (NetworkStatus a networkStatusRequest)) \<noteq> None
         \<and> NetworkStatus a' networkStatusRequest = (None, None, Some err)
         \<and> snd (snd (NetworkStatus a' networkStatusRequest)) \<noteq> None"
  using assms
  by (auto simp: NetworkStatus_def split: option.splits)

text \<open>C9 on a node that answers with status 404 and on a connection that fails.\<close>

theorem NetworkStatus_domain_error_and_error_witness:
  "NetworkStatus (answering_client 404) ()
     = (None, Some \<lparr>Code = 12, Message = ''signature invalid'', Retriable = False\<rparr>,
        Some (fmt_Errorf ''%+v''
                (ArgError \<lparr>Code = 12, Message = ''signature invalid'', Retriable = False\<rparr>)))
   \<and> NetworkStatus unreachable_client ()
     = (None, None, Some (errors_New ''connection refused''))"
proof -
  have p: "prepareRequest (answering_client 404)
             (cfg_BasePath (answering_client 404) @ ''/network/status'') ()
             (localVarHeaderParams (answering_client 404))
           = Inr ''http://localhost:8080/network/status''"
    by (simp add: answering_client_def)
  have c: "callAPI (answering_client 404) ''http://localhost:8080/network/status''
           = (Some \<lparr>StatusCode = 404,
                    Header = Map.empty(''Content-Type'' \<mapsto> ''application/json''),
                    Body = []\<rparr>, None)"
    by (simp add: answering_client_def)
  have b: "ioutil_ReadAll (answering_client 404)
             (Body \<lparr>StatusCode = 404,
                    Header = Map.empty(''Content-Type'' \<mapsto> ''application/json''),
                    Body = []\<rparr>) = Inr []"
    by (simp add: answering_client_def)
  have s: "StatusCode \<lparr>StatusCode = 404,
                    Header = Map.empty(''Content-Type'' \<mapsto> ''application/json''),
                    Body = ([] :: 8 word list)\<rparr> \<noteq> StatusOK"
    by (simp add: StatusOK_def)
  have d: "decode_Error (answering_client 404) []
             (Header_Get (Header \<lparr>StatusCode = 404,
                    Header = Map.empty(''Content-Type'' \<mapsto> ''application/json''),
                    Body = ([] :: 8 word list)\<rparr>) ''Content-Type'')
           = Inr \<lparr>Code = 12, Message = ''signature invalid'', Retriable = False\<rparr>"
    by (simp add: answering_client_def)
  have p': "prepareRequest unreachable_client
             (cfg_BasePath unreachable_client @ ''/network/status'') ()
             (localVarHeaderParams unreachable_client)
           = Inr ''http://localhost:8080/network/status''"
    by (simp add: unreachable_client_def answering_client_def)
  have c': "callAPI unreachable_client ''http://localhost:8080/network/status''
           = (None, Some (errors_New ''connection refused''))"
    by (simp add: unreachable_client_def)
  from NetworkStatus_domain_error_and_error [OF p c b s d p' c']
  show ?thesis by simp
qed

section \<open>The retry loop of the fetcher\<close>

lemmas loop_induct = AccountBalanceRetry_loop.raw_induct [rotated, consumes 1, case_names round]

lemma AccountBalanceRetry_loop_error:
  assumes "AccountBalanceRetry_loop f network account backoff st = Some y"
  shows "\<forall>block balances err st'. y = (Returns (block, balances, Some err), st')
           \<longrightarrow> block = None \<and> balances = [] \<and> err = exhausted_retries"
  using assms
proof (induction f network account backoff st y rule: loop_induct)
  case (round loop f network account backoff st y)
  then show ?case
    by (auto split: if_splits prod.splits outcome.splits option.splits)
qed

lemma AccountBalance_no_account_panic:
  "AccountBalance f network account st \<noteq> (Panics Nil_account, st')"
  by (auto simp: AccountBalance_def UnsafeAccountBalance_def Let_def
        split: prod.splits outcome.splits option.splits)

lemma AccountBalanceRetry_loop_account_present:
  assumes "AccountBalanceRetry_loop f network account backoff st = Some y"
  shows "account \<noteq> None \<longrightarrow> (\<forall>st'. y \<noteq> (Panics Nil_account, st'))"
  using assms
proof (induction f network account backoff st y rule: loop_induct)
  case (round loop f network account backoff st y)
  then show ?case
    by (auto simp: AccountBalance_no_account_panic
          split: if_splits prod.splits outcome.splits option.splits)
qed

lemma AccountBalanceRetry_loop_cancelled:
  "ctx_Err f (world st) \<noteq> None \<Longrightarrow>
     AccountBalanceRetry_loop f network account backoff st
       = Some (Returns (None, [], Some exhausted_retries), st)"
  by (subst AccountBalanceRetry_loop.simps) auto

text \<open>
  Claim C1, as the code has it. For every call to \<open>AccountBalanceRetry\<close> where \<open>ctx.Err()\<close>
  is non-nil before the first attempt, the call performs no transport call and returns
  \<open>errors.New("exhausted retries for account")\<close>, the error of an exhausted retry budget;
  there is no separate cancellation error.
\<close>

theorem AccountBalanceRetry_cancelled_before_first_attempt:
  assumes "ctx_Err f (world st) \<noteq> None"
  shows "AccountBalanceRetry f network account maxElapsedTime maxRetries st
           = Some (Returns (None, [], Some (errors_New ''exhausted retries for account'')), st)
         \<and> (\<forall>result st'.
               AccountBalanceRetry f network account maxElapsedTime maxRetries st
                 = Some (result, st')
               \<longrightarrow> transport_calls st' = transport_calls st)"
  using assms
  by (simp add: AccountBalanceRetry_def AccountBalanceRetry_loop_cancelled exhausted_retries_def)

text \<open>C1, as amended, on a fetcher whose context is cancelled from the start.\<close>

theorem AccountBalanceRetry_cancelled_before_first_attempt_witness:
  "ctx_Err (constant_fetcher True connection_refused) (world start) \<noteq> None
   \<and> AccountBalanceRetry (constant_fetcher True connection_refused) None (Some validIdentifier)
       0 5 start
     = Some (Returns (None, [], Some (errors_New ''exhausted retries for account'')), start)
   \<and> transport_calls start = []"
proof -
  have cancelled: "ctx_Err (constant_fetcher True connection_refused) (world start) \<noteq> None"
    by (simp add: constant_fetcher_def)
  from AccountBalanceRetry_cancelled_before_first_attempt [OF cancelled] cancelled
  show ?thesis by (simp add: start_def)
qed

text \<open>
  Against C1 as stated: with the context cancelled before the first attempt the call returns
  the very error that it returns after it has used up a budget of no retries on a transport
  that refuses the connection, so the failure is not distinct from retries-exhausted.
\<close>

theorem AccountBalanceRetry_cancelled_counterexample:
  "AccountBalanceRetry (constant_fetcher True connection_refused) None (Some validIdentifier)
       0 0 start
     = Some (Returns (None, [], Some (errors_New ''exhausted retries for account'')), start)
   \<and> AccountBalanceRetry (constant_fetcher False connection_refused) None (Some validIdentifier)
       0 0 start
     = Some (Returns (None, [], Some (errors_New ''exhausted retries for account'')),
             \<lparr>world = (),
              transport_calls =
                [\<lparr>Request_NetworkIdentifier = None,
                  Request_AccountIdentifier = Some validIdentifier\<rparr>]\<rparr>)"
  by (simp add: AccountBalanceRetry_def AccountBalanceRetry_loop.simps AccountBalance_def
        UnsafeAccountBalance_def constant_fetcher_def connection_refused_def start_def
        exhausted_retries_def validIdentifier_def)

text \<open>
  Claim C3, as the code has it. For every call to \<open>AccountBalanceRetry\<close> that returns an
  error (so for every call that ends by exhausting the retry budget), the error is the fixed
  \<open>errors.New("exhausted retries for account")\<close>: it names the operation, it is the same
  for every account address and every last underlying error, and it wraps no error.
\<close>

theorem AccountBalanceRetry_error_is_fixed:
  assumes "AccountBalanceRetry f network account maxElapsedTime maxRetries st
             = Some (Returns (block, balances, Some err), st')"
  shows "err = errors_New ''exhausted retries for account''
         \<and> errors_Unwrap err = None \<and> block = None \<and> balances = []"
  using AccountBalanceRetry_loop_error [OF assms [unfolded AccountBalanceRetry_def]]
  by (simp add: exhausted_retries_def)

text \<open>
  C3, as amended, on a call with one retry against a transport that refuses the connection.
\<close>

theorem AccountBalanceRetry_error_is_fixed_witness:
  "AccountBalanceRetry (constant_fetcher False connection_refused) None
       (Some validIdentifier) 0 1 start
     = Some (Returns (None, [], Some (errors_New ''exhausted retries for account'')),
             \<lparr>world = (),
              transport_calls =
                [\<lparr>Request_NetworkIdentifier = None,
                  Request_AccountIdentifier = Some validIdentifier\<rparr>,
                 \<lparr>Request_NetworkIdentifier = None,
                  Request_AccountIdentifier = Some validIdentifier\<rparr>]\<rparr>)
   \<and> errors_Unwrap (errors_New ''exhausted retries for account'') = None"
proof -
  have run: "AccountBalanceRetry (constant_fetcher False connection_refused) None
       (Some validIdentifier) 0 1 start
     = Some (Returns (None, [], Some exhausted_retries),
             \<lparr>world = (),
              transport_calls =
                [\<lparr>Request_NetworkIdentifier = None,
                  Request_AccountIdentifier = Some validIdentifier\<rparr>,
                 \<lparr>Request_NetworkIdentifier = None,
                  Request_AccountIdentifier = Some validIdentifier\<rparr>]\<rparr>)"
    by (simp add: AccountBalanceRetry_def AccountBalanceRetry_loop.simps AccountBalance_def
        UnsafeAccountBalance_def constant_fetcher_def connection_refused_def start_def)
  from AccountBalanceRetry_error_is_fixed [OF run] run
  show ?thesis by simp
qed

text \<open>
  Against C3 as stated: after two failed attempts for the account \<open>acct1\<close> the terminal
  error holds neither the address nor the text of the last underlying error and wraps
  nothing; a call for \<open>acct2\<close> that fails with another error ends with the same value.
\<close>

theorem AccountBalanceRetry_exhausted_counterexample:
  "AccountBalanceRetry (constant_fetcher False connection_refused) None
       (Some \<lparr>Address = ''acct1'', SubAccount = None\<rparr>) 0 1 start
     = Some (Returns (None, [], Some (errors_New ''exhausted retries for account'')),
             \<lparr>world = (),
              transport_calls =
                [\<lparr>Request_NetworkIdentifier = None,
                  Request_AccountIdentifier = Some \<lparr>Address = ''acct1'', SubAccount = None\<rparr>\<rparr>,
                 \<lparr>Request_NetworkIdentifier = None,
                  Request_AccountIdentifier = Some \<lparr>Address = ''acct1'', SubAccount = None\<rparr>\<rparr>]\<rparr>)
   \<and> \<not> sublist ''acct1'' ''exhausted retries for account''
   \<and> \<not> sublist ''connection refused'' ''exhausted retries for account''
   \<and> errors_Unwrap (errors_New ''exhausted retries for account'') = None
   \<and> AccountBalanceRetry (constant_fetcher False request_timed_out) None
       (Some \<lparr>Address = ''acct2'', SubAccount = None\<rparr>) 0 1 start
     = Some (Returns (None, [], Some (errors_New ''exhausted retries for account'')),
             \<lparr>world = (),
              transport_calls =
                [\<lparr>Request_NetworkIdentifier = None,
                  Request_AccountIdentifier = Some \<lparr>Address = ''acct2'', SubAccount = None\<rparr>\<rparr>,
                 \<lparr>Request_NetworkIdentifier = None,
                  Request_AccountIdentifier = Some \<lparr>Address = ''acct2'', SubAccount = None\<rparr>\<rparr>]\<rparr>)"
proof -
  have s1: "\<not> sublist ''acct1'' ''exhausted retries for account''" by code_simp
  have s2: "\<not> sublist ''connection refused'' ''exhausted retries for account''" by code_simp
  show ?thesis
    using s1 s2
    by (simp add: AccountBalanceRetry_def AccountBalanceRetry_loop.simps AccountBalance_def
        UnsafeAccountBalance_def constant_fetcher_def connection_refused_def
        request_timed_out_def start_def exhausted_retries_def)
qed

text \<open>
  Claim C10. \<open>AccountBalanceRetry\<close> needs a non-nil account to be safe: with a nil account, a
  live context and a failed first attempt the call panics on \<open>account.Address\<close>; with an
  account present, no call panics on that dereference.
\<close>

theorem AccountBalanceRetry_nil_account:
  "(account = None \<and> ctx_Err f (world st) = None
      \<and> AccountBalance f network account st = (Returns (block, balances, Some err), st')
     \<longrightarrow> AccountBalanceRetry f network account maxElapsedTime maxRetries st
           = Some (Panics Nil_account, st'))
   \<and> (account \<noteq> None
     \<longrightarrow> (\<forall>st''. AccountBalanceRetry f network account maxElapsedTime maxRetries st
                  \<noteq> Some (Panics Nil_account, st'')))"
proof (intro conjI impI allI)
  assume "account = None \<and> ctx_Err f (world st) = None
      \<and> AccountBalance f network account st = (Returns (block, balances, Some err), st')"
  then have nil: "account = None" and live: "ctx_Err f (world st) = None"
    and failed: "AccountBalance f network None st = (Returns (block, balances, Some err), st')"
    by auto
  show "AccountBalanceRetry f network account maxElapsedTime maxRetries st
           = Some (Panics Nil_account, st')"
    unfolding AccountBalanceRetry_def nil
    by (subst AccountBalanceRetry_loop.simps) (simp add: live failed)
next
  fix st''
  assume present: "account \<noteq> None"
  show "AccountBalanceRetry f network account maxElapsedTime maxRetries st
          \<noteq> Some (Panics Nil_account, st'')"
  proof
    assume "AccountBalanceRetry f network account maxElapsedTime maxRetries st
              = Some (Panics Nil_account, st'')"
    then have "AccountBalanceRetry_loop f network account
                 (backoffRetries f maxElapsedTime maxRetries (world st)) st
               = Some (Panics Nil_account, st'')"
      by (simp add: AccountBalanceRetry_def)
    from AccountBalanceRetry_loop_account_present [OF this] present
    show False by simp
  qed
qed

text \<open>
  C10 on a transport that refuses the connection: a nil account panics after one transport
  call, a present account does not.
\<close>

theorem AccountBalanceRetry_nil_account_witness:
  "AccountBalanceRetry (constant_fetcher False connection_refused) None None 0 1 start
     = Some (Panics Nil_account,
             \<lparr>world = (),
              transport_calls =
                [\<lparr>Request_NetworkIdentifier = None, Request_AccountIdentifier = None\<rparr>]\<rparr>)
   \<and> AccountBalanceRetry (constant_fetcher False connection_refused) None
        (Some validIdentifier) 0 1 start
     \<noteq> Some (Panics Nil_account, start)"
proof -
  have attempt: "AccountBalance (constant_fetcher False connection_refused) None None start
      = (Returns (None, [], Some (errors_New ''connection refused'')),
         \<lparr>world = (),
          transport_calls =
            [\<lparr>Request_NetworkIdentifier = None, Request_AccountIdentifier = None\<rparr>]\<rparr>)"
    by (simp add: AccountBalance_def UnsafeAccountBalance_def constant_fetcher_def
          connection_refused_def start_def)
  have live: "ctx_Err (constant_fetcher False connection_refused) (world start) = None"
    by (simp add: constant_fetcher_def)
  from AccountBalanceRetry_nil_account
         [of None "constant_fetcher False connection_refused" start None None "[]"
             "errors_New ''connection refused''"
             "\<lparr>world = (), transport_calls =
                 [\<lparr>Request_NetworkIdentifier = None, Request_AccountIdentifier = None\<rparr>]\<rparr>"
             0 1]
       AccountBalanceRetry_nil_account
         [of "Some validIdentifier" "constant_fetcher False connection_refused" start None]
       attempt live
  show ?thesis by simp
qed

end
